theory Spec2Isabelle
  imports Complex_Main
begin

section \<open>Strings\<close>

text \<open>
  A Python \<open>str\<close> is modelled as a \<open>string\<close>: a list of characters, each character
  standing for one code point in the range 0..255. On that range the whitespace test and
  the lower-casing below are the ones of \<open>str.strip\<close>, of \<open>\s\<close> in \<open>re\<close> and of
  \<open>str.lower\<close>; code points beyond 255 are outside the model.
\<close>

definition nl :: char where
  "nl = CHR 0x0A"

definition isspace :: "char \<Rightarrow> bool" where
  "isspace c =
     (let n = (of_char c :: nat)
      in (9 \<le> n \<and> n \<le> 13) \<or> (28 \<le> n \<and> n \<le> 32) \<or> n = 133 \<or> n = 160)"

definition lower_char :: "char \<Rightarrow> char" where
  "lower_char c =
     (let n = (of_char c :: nat)
      in if (65 \<le> n \<and> n \<le> 90) \<or> (192 \<le> n \<and> n \<le> 222 \<and> n \<noteq> 215)
         then char_of (n + 32) else c)"

definition lower :: "string \<Rightarrow> string" where
  "lower s = map lower_char s"

definition strip :: "string \<Rightarrow> string" where
  "strip s = rev (dropWhile isspace (rev (dropWhile isspace s)))"

text \<open>\<open>startswith s p\<close> is \<open>s.startswith(p)\<close>; \<open>contains p s\<close> is \<open>p in s\<close>.\<close>

definition startswith :: "string \<Rightarrow> string \<Rightarrow> bool" where
  "startswith s p = (take (length p) s = p)"

fun contains :: "string \<Rightarrow> string \<Rightarrow> bool" where
  "contains p [] = (p = [])"
| "contains p (c # cs) = (startswith (c # cs) p \<or> contains p cs)"

section \<open>The sanitizer: \<open>clean_agent_output\<close>\<close>

text \<open>
  The marker of both regular expressions: eight \<open>>\<close> and one space.
\<close>

definition banner :: string where
  "banner = ''>>>>>>>> ''"

text \<open>
  \<open>re.sub(r'^\s*>>>>>>>> .*?\n', '', output, flags=re.DOTALL)\<close>. Without
  \<open>re.MULTILINE\<close> the anchor \<open>^\<close> matches at position 0 only, so there is at most one
  match. \<open>\s*\<close> is greedy and the marker begins with a character that is not
  whitespace, so the marker has to follow the whole leading run of whitespace. The
  lazy \<open>.*?\<close> then runs to the first newline after the marker; with no newline there
  the pattern does not match and the text is returned as it is.
\<close>

definition banner_line :: "string \<Rightarrow> bool" where
  "banner_line r = (startswith r banner \<and> nl \<in> set (drop (length banner) r))"

definition sub_leading :: "string \<Rightarrow> string" where
  "sub_leading s =
     (let r = dropWhile isspace s
      in if banner_line r
         then tl (dropWhile (\<lambda>c. c \<noteq> nl) (drop (length banner) r))
         else s)"

text \<open>
  \<open>re.sub(r'\n>>>>>>>> .*?\s*$', '', output, flags=re.DOTALL)\<close>. The search takes the
  leftmost position where a newline and the marker stand. Under \<open>re.DOTALL\<close> the lazy
  \<open>.*?\<close> can run over anything, and it has to: \<open>\s*$\<close> only matches when nothing but
  whitespace is left, and the greedy \<open>\s*\<close> then takes all of it. The match therefore
  reaches the end of the text, and everything from the first newline-plus-marker on is
  removed.
\<close>

fun sub_trailing :: "string \<Rightarrow> string" where
  "sub_trailing [] = []"
| "sub_trailing (c # cs) =
     (if startswith (c # cs) (nl # banner) then [] else c # sub_trailing cs)"

text \<open>
  The function is only ever applied to a \<open>str\<close> (the placeholder literal or a non-empty
  summary), so the \<open>isinstance\<close> guard at its head is passed and the model is on strings.
\<close>

definition clean_agent_output :: "string \<Rightarrow> string" where
  "clean_agent_output output = strip (sub_trailing (sub_leading output))"

section \<open>Configuration and agents\<close>

text \<open>
  \<open>os.getenv\<close> is a parameter: the environment, a map from variable names to values.
\<close>

type_synonym env = "string \<rightharpoonup> string"

record config_entry =
  model :: string
  api_key :: "string option"
  api_type :: string

definition config_list :: "env \<Rightarrow> config_entry list" where
  "config_list getenv =
     [\<lparr>model = ''gemini-1.5-flash'', api_key = getenv ''GOOGLE_API_KEY'', api_type = ''google''\<rparr>]"

text \<open>
  The dictionary literal names the key \<open>config_list\<close> twice with the same value; the
  later entry wins, so the dictionary has three keys. The temperature is the decimal
  literal of the source.
\<close>

record llm_config_t =
  cfg_config_list :: "config_entry list"
  seed :: int
  temperature :: real

definition llm_config :: "env \<Rightarrow> llm_config_t" where
  "llm_config getenv =
     \<lparr>cfg_config_list = config_list getenv, seed = 42, temperature = 0.7\<rparr>"

text \<open>
  The instruction texts (\<open>system_message\<close>) of the three assistant agents and of the
  user proxy, character for character.
\<close>

definition researcher_system_message :: string where
  "researcher_system_message =
     ''You are a Blog Researcher whose SOLE purpose is to gather and structure information for a blog post on a given topic.\<newline>''
       @ ''    You will receive the blog post topic.\<newline>''
       @ ''    Your task is to perform research and provide key points, facts, and potential sections directly relevant to THIS specific topic.\<newline>''
       @ ''    Provide the research findings in a clear, structured format (e.g., outline, bullet points, sections), suitable for a writer to use.\<newline>''
       @ ''    **EXTREMELY IMPORTANT: YOUR ONLY OUTPUT MUST BE THE RESEARCH FINDINGS FOR THE PROVIDED TOPIC. DO NOT include any conversational text, questions, greetings, apologies, or internal system messages like 'TERMINATE' or references to future steps or other agents. Do not discuss processes like fact-checking or visual integration. Provide your complete, topic-specific research findings in a single, direct response.**\<newline>''
       @ ''    ''"

definition writer_system_message :: string where
  "writer_system_message =
     ''You are a Blog Writer.\<newline>''
       @ ''    You will receive research data from the researcher.\<newline>''
       @ ''    Your task is to write a comprehensive, engaging, and well-structured blog post based on the provided research.\<newline>''
       @ ''    Format the output as the full blog post content.\<newline>''
       @ ''    **IMPORTANT: ONLY output the blog post content. Do not include any conversational text, greetings, or internal system messages like 'TERMINATE'. Provide the complete blog post in a single response.**\<newline>''
       @ ''    ''"

definition editor_system_message :: string where
  "editor_system_message =
     ''\<newline>''
       @ ''    You are a blog post editor expert.\<newline>''
       @ ''    You will receive a blog post draft.\<newline>''
       @ ''    Your task is to validate and improve the content, making it more meaningful, clear, and engaging.\<newline>''
       @ ''    Check for flow, grammar, spelling, and overall quality.\<newline>''
       @ ''    Edit the content as necessary and provide the final, polished blog post.\<newline>''
       @ ''    **IMPORTANT: ONLY output the final, polished blog post. Do not include any conversational text, greetings, or internal system messages like 'TERMINATE'. Provide the complete, final blog post in a single response.**\<newline>''
       @ ''    ''"

definition user_proxy_system_message :: string where
  "user_proxy_system_message =
     ''You are a silent and efficient orchestrator. Your SOLE purpose is to initiate tasks with other agents and relay their final, cleaned outputs sequentially through the workflow. DO NOT generate ANY conversational responses, ask agents questions, guide their process, acknowledge their messages, or include any text in the chat other than initiating the specific task for the next agent using the previous agent's output. Just initiate the task and capture the final output for the next step.''"

text \<open>An assistant agent: its name, its configuration and its instruction text.\<close>

record agent =
  agent_name :: string
  agent_llm_config :: llm_config_t
  agent_system_message :: string

definition researcher_agent :: "env \<Rightarrow> agent" where
  "researcher_agent getenv =
     \<lparr>agent_name = ''Researcher'', agent_llm_config = llm_config getenv,
      agent_system_message = researcher_system_message\<rparr>"

definition writer_agent :: "env \<Rightarrow> agent" where
  "writer_agent getenv =
     \<lparr>agent_name = ''Writer'', agent_llm_config = llm_config getenv,
      agent_system_message = writer_system_message\<rparr>"

definition editor_agent :: "env \<Rightarrow> agent" where
  "editor_agent getenv =
     \<lparr>agent_name = ''Editor'', agent_llm_config = llm_config getenv,
      agent_system_message = editor_system_message\<rparr>"

text \<open>
  The user proxy. \<open>is_termination_msg\<close> is the lambda of the source on the message's
  \<open>content\<close> entry (\<open>None\<close> when the key is missing, read as the empty string).
\<close>

definition rstrip :: "string \<Rightarrow> string" where
  "rstrip s = rev (dropWhile isspace (rev s))"

definition endswith :: "string \<Rightarrow> string \<Rightarrow> bool" where
  "endswith s p = startswith (rev s) (rev p)"

definition is_termination_msg :: "string option \<Rightarrow> bool" where
  "is_termination_msg content =
     endswith (rstrip (case content of None \<Rightarrow> [] | Some c \<Rightarrow> c)) ''TERMINATE''"

record user_proxy_t =
  proxy_name :: string
  human_input_mode :: string
  proxy_max_consecutive_auto_reply :: nat
  code_execution_config :: bool
  proxy_llm_config :: llm_config_t
  proxy_system_message :: string

definition user_proxy :: "env \<Rightarrow> user_proxy_t" where
  "user_proxy getenv =
     \<lparr>proxy_name = ''UserProxy'', human_input_mode = ''NEVER'',
      proxy_max_consecutive_auto_reply = 2, code_execution_config = False,
      proxy_llm_config = llm_config getenv,
      proxy_system_message = user_proxy_system_message\<rparr>"

section \<open>The generative service\<close>

text \<open>
  \<open>initiate_chat\<close> is a call into the agent library and through it to the remote
  service. The model records each call with the arguments the source passes, and takes
  the library's answer as a parameter: the call raises, or it returns a chat result
  (possibly \<open>None\<close>) whose \<open>summary\<close> may be missing. A run addresses each agent at
  most once, so a function of the call stands for any sequence of answers.
\<close>

record chat_call =
  sender :: user_proxy_t
  recipient :: agent
  message :: string
  clear_history :: bool
  max_consecutive_auto_reply :: nat

record chat_result =
  summary :: "string option"

datatype reply = Raised string | Returned "chat_result option"

type_synonym service = "chat_call \<Rightarrow> reply"

text \<open>
  \<open>r.summary if r and r.summary else placeholder\<close>: a missing result, a missing summary
  and an empty summary are all falsy.
\<close>

definition summary_or :: "chat_result option \<Rightarrow> string \<Rightarrow> string" where
  "summary_or r placeholder =
     (case r of
        None \<Rightarrow> placeholder
      | Some res \<Rightarrow>
          (case summary res of
             None \<Rightarrow> placeholder
           | Some s \<Rightarrow> if s = [] then placeholder else s))"

section \<open>The validation checks\<close>

text \<open>The three conditions of the source, each as it is written at its stage.\<close>

definition research_invalid :: "string \<Rightarrow> bool" where
  "research_invalid research_content =
     (research_content = []
      \<or> contains ''No research content generated.'' research_content
      \<or> startswith (lower (strip research_content)) ''okay''
      \<or> startswith (lower (strip research_content)) ''awaiting''
      \<or> contains ''fact-checking process'' (lower research_content)
      \<or> contains ''visual integration'' (lower research_content)
      \<or> startswith (lower (strip research_content)) ''i will now proceed'')"

definition writing_invalid :: "string \<Rightarrow> bool" where
  "writing_invalid blog_post_draft =
     (blog_post_draft = []
      \<or> contains ''No blog post draft generated.'' blog_post_draft
      \<or> startswith (lower (strip blog_post_draft)) ''i cannot create''
      \<or> startswith (lower (strip blog_post_draft)) ''i will now proceed'')"

definition final_valid :: "string \<Rightarrow> bool" where
  "final_valid final_blog_post =
     (final_blog_post \<noteq> []
      \<and> \<not> contains ''No final blog post generated.'' final_blog_post
      \<and> \<not> startswith (lower (strip final_blog_post)) ''i will now proceed'')"

text \<open>
  The validator of the specification, \<open>validate(role, text)\<close>, is the check of the role's
  stage; the placeholder of a role is the literal its stage substitutes for a missing
  summary.
\<close>

datatype role = Researcher | Writer | Editor

datatype verdict = Accepted | Rejected

fun validate :: "role \<Rightarrow> string \<Rightarrow> verdict" where
  "validate Researcher t = (if research_invalid t then Rejected else Accepted)"
| "validate Writer t = (if writing_invalid t then Rejected else Accepted)"
| "validate Editor t = (if final_valid t then Accepted else Rejected)"

fun placeholder :: "role \<Rightarrow> string" where
  "placeholder Researcher = ''No research content generated.''"
| "placeholder Writer = ''No blog post draft generated.''"
| "placeholder Editor = ''No final blog post generated.''"

section \<open>The page script\<close>

text \<open>
  What a run of the script leaves behind: the elements it put on the page, in order, the
  calls it made to the service, and the exception that ended it, if one did (the script
  has no handler, so a raising call ends the run).
\<close>

datatype ui_event =
    Title string
  | TextInput string
  | Button string
  | Spinner string
  | Info string
  | ErrorMsg string
  | WarningMsg string
  | Subheader string
  | Write string
  | Success string

record run =
  ui :: "ui_event list"
  calls :: "chat_call list"
  uncaught :: "string option"

definition display :: "ui_event \<Rightarrow> run \<Rightarrow> run" where
  "display e st = st\<lparr>ui := ui st @ [e]\<rparr>"

definition research_task :: "string \<Rightarrow> string" where
  "research_task blog_name =
     ''Research content for a blog post on the topic: '' @ blog_name
       @ ''. Provide key points, facts, and potential sections.''"

definition writing_task :: "string \<Rightarrow> string" where
  "writing_task research_content =
     ''Write a comprehensive blog post based on the following research findings:\<newline>\<newline>''
       @ research_content @ ''\<newline>\<newline>Ensure it is engaging and well-structured.''"

definition editing_task :: "string \<Rightarrow> string" where
  "editing_task blog_post_draft =
     ''Review and improve the following blog post for clarity, flow, and accuracy. Make it more meaningful and engaging. Provide the final, polished blog post.\<newline>\<newline>''
       @ blog_post_draft"

text \<open>
  The call each stage issues: \<open>user_proxy.initiate_chat(agent, message=task,
  clear_history=True, max_consecutive_auto_reply=1)\<close>.
\<close>

definition initiate_chat :: "env \<Rightarrow> agent \<Rightarrow> string \<Rightarrow> chat_call" where
  "initiate_chat getenv a task =
     \<lparr>sender = user_proxy getenv, recipient = a, message = task,
      clear_history = True, max_consecutive_auto_reply = 1\<rparr>"

definition step3_editor :: "env \<Rightarrow> service \<Rightarrow> string \<Rightarrow> run \<Rightarrow> run" where
  "step3_editor getenv svc blog_post_draft st =
     (let st1 = display (Info ''Editor is reviewing and improving the blog post...'') st;
          c = initiate_chat getenv (editor_agent getenv) (editing_task blog_post_draft);
          st2 = st1\<lparr>calls := calls st1 @ [c]\<rparr>
      in case svc c of
           Raised e \<Rightarrow> st2\<lparr>uncaught := Some e\<rparr>
         | Returned editing_result \<Rightarrow>
             (let final_blog_post =
                    clean_agent_output (summary_or editing_result ''No final blog post generated.'');
                  st3 = display (Write final_blog_post)
                          (display (Subheader ''Final Blog Post:'') st2)
              in if final_valid final_blog_post
                 then display (Success ''Blog post generation complete!'') st3
                 else display (ErrorMsg ''Editing failed or returned no content.'') st3))"

definition step2_writer :: "env \<Rightarrow> service \<Rightarrow> string \<Rightarrow> run \<Rightarrow> run" where
  "step2_writer getenv svc research_content st =
     (let st1 = display (Info ''Writer is drafting the blog post...'') st;
          c = initiate_chat getenv (writer_agent getenv) (writing_task research_content);
          st2 = st1\<lparr>calls := calls st1 @ [c]\<rparr>
      in case svc c of
           Raised e \<Rightarrow> st2\<lparr>uncaught := Some e\<rparr>
         | Returned writing_result \<Rightarrow>
             (let blog_post_draft =
                    clean_agent_output (summary_or writing_result ''No blog post draft generated.'')
              in if writing_invalid blog_post_draft
                 then display (ErrorMsg ''Writing failed or returned no content. Cannot proceed with editing.'') st2
                 else step3_editor getenv svc blog_post_draft st2))"

definition step1_researcher :: "env \<Rightarrow> service \<Rightarrow> string \<Rightarrow> run \<Rightarrow> run" where
  "step1_researcher getenv svc blog_name st =
     (let c = initiate_chat getenv (researcher_agent getenv) (research_task blog_name);
          st1 = st\<lparr>calls := calls st @ [c]\<rparr>
      in case svc c of
           Raised e \<Rightarrow> st1\<lparr>uncaught := Some e\<rparr>
         | Returned research_result \<Rightarrow>
             (let research_content =
                    clean_agent_output (summary_or research_result ''No research content generated.'')
              in if research_invalid research_content
                 then display (ErrorMsg ''Research failed or returned invalid content. Cannot proceed with writing.'') st1
                 else step2_writer getenv svc research_content st1))"

text \<open>
  One run of the script: \<open>blog_name\<close> is what the text input holds and \<open>clicked\<close> what
  \<open>st.button\<close> returns.
\<close>

definition page :: run where
  "page =
     \<lparr>ui = [Title ''BlogBot'', TextInput ''Enter a topic name for the blog post:'',
            Button ''Generate Blog Post''],
      calls = [], uncaught = None\<rparr>"

definition app :: "env \<Rightarrow> service \<Rightarrow> string \<Rightarrow> bool \<Rightarrow> run" where
  "app getenv svc blog_name clicked =
     (if clicked
      then if blog_name \<noteq> []
           then step1_researcher getenv svc blog_name
                  (display (Spinner ''Generating blog post...'') page)
           else display (WarningMsg ''Please enter a topic name.'') page
      else page)"

section \<open>Vocabulary of the statements\<close>

text \<open>
  Names for what the statements below speak about: the call of each stage, the content a
  stage extracts from the service's answer, an answer without content, and a stub
  service that answers by the name of the agent addressed.
\<close>

definition research_call :: "env \<Rightarrow> string \<Rightarrow> chat_call" where
  "research_call getenv blog_name =
     initiate_chat getenv (researcher_agent getenv) (research_task blog_name)"

definition writing_call :: "env \<Rightarrow> string \<Rightarrow> chat_call" where
  "writing_call getenv research_content =
     initiate_chat getenv (writer_agent getenv) (writing_task research_content)"

definition editing_call :: "env \<Rightarrow> string \<Rightarrow> chat_call" where
  "editing_call getenv blog_post_draft =
     initiate_chat getenv (editor_agent getenv) (editing_task blog_post_draft)"

definition content_of :: "role \<Rightarrow> chat_result option \<Rightarrow> string" where
  "content_of r res = clean_agent_output (summary_or res (placeholder r))"

definition no_content :: "chat_result option \<Rightarrow> bool" where
  "no_content res =
     (case res of
        None \<Rightarrow> True
      | Some x \<Rightarrow> (case summary x of None \<Rightarrow> True | Some s \<Rightarrow> s = []))"

definition said :: "string \<Rightarrow> chat_result option" where
  "said s = Some \<lparr>summary = Some s\<rparr>"

definition stub :: "chat_result option \<Rightarrow> chat_result option \<Rightarrow> chat_result option \<Rightarrow> service" where
  "stub r w e c =
     Returned (if agent_name (recipient c) = ''Researcher'' then r
               else if agent_name (recipient c) = ''Writer'' then w
               else e)"

section \<open>Facts about strings\<close>


lemma startswith_iff: "startswith s p \<longleftrightarrow> (\<exists>r. s = p @ r)"
  unfolding startswith_def
  by (metis append_eq_conv_conj append_take_drop_id)

lemma contains_iff: "contains p s \<longleftrightarrow> (\<exists>a b. s = a @ p @ b)"
proof (induction s)
  case Nil
  then show ?case by auto
next
  case (Cons c cs)
  show ?case
  proof
    assume "contains p (c # cs)"
    then consider "startswith (c # cs) p" | "contains p cs" by auto
    then show "\<exists>a b. c # cs = a @ p @ b"
    proof cases
      case 1
      then obtain r where "c # cs = p @ r" by (auto simp: startswith_iff)
      then have "c # cs = [] @ p @ r" by simp
      then show ?thesis by blast
    next
      case 2
      then obtain a b where "cs = a @ p @ b" using Cons.IH by blast
      then have "c # cs = (c # a) @ p @ b" by simp
      then show ?thesis by blast
    qed
  next
    assume "\<exists>a b. c # cs = a @ p @ b"
    then obtain a b where ab: "c # cs = a @ p @ b" by blast
    show "contains p (c # cs)"
    proof (cases a)
      case Nil
      then have "startswith (c # cs) p" using ab by (auto simp: startswith_iff)
      then show ?thesis by simp
    next
      case (Cons x a')
      then have "cs = a' @ p @ b" using ab by simp
      then show ?thesis using Cons.IH by auto
    qed
  qed
qed



lemma sub_trailing_id: "\<not> contains (nl # banner) s \<Longrightarrow> sub_trailing s = s"
  by (induction s) auto





section \<open>Facts about the sanitizer\<close>


lemma contains_mono: "contains p t \<Longrightarrow> contains p (a @ t @ b)"
proof -
  assume "contains p t"
  then obtain x y where "t = x @ p @ y" by (auto simp: contains_iff)
  then have "a @ t @ b = (a @ x) @ p @ (y @ b)" by simp
  then show ?thesis unfolding contains_iff by blast
qed
















lemma contains_suffix: "contains p (dropWhile P s) \<Longrightarrow> contains p s"
  using contains_mono [of p "dropWhile P s" "takeWhile P s" "[]"] by simp

lemma startswith_contains: "startswith s p \<Longrightarrow> contains p s"
  unfolding startswith_iff contains_iff by (metis append_Nil)

lemma contains_tail: "contains (c # p) s \<Longrightarrow> contains p s"
proof -
  assume "contains (c # p) s"
  then obtain a b where "s = a @ (c # p) @ b" unfolding contains_iff by blast
  then have "s = (a @ [c]) @ p @ b" by simp
  then show ?thesis unfolding contains_iff by blast
qed

lemma clean_no_banner:
  assumes "\<not> contains banner s"
  shows "clean_agent_output s = strip s"
proof -
  have "\<not> startswith (dropWhile isspace s) banner"
    using assms contains_suffix startswith_contains by blast
  then have 1: "sub_leading s = s" by (simp add: sub_leading_def banner_line_def)
  have "\<not> contains (nl # banner) s" using assms contains_tail by blast
  then have "sub_trailing s = s" by (rule sub_trailing_id)
  then show ?thesis using 1 by (simp add: clean_agent_output_def)
qed


section \<open>The sanitizer: marker removal and idempotence\<close>











section \<open>The validation checks: prefixes and placeholders\<close>

lemmas string_eval = strip_def startswith_def lower_def lower_char_def isspace_def nl_def banner_def char_of_def bit_Suc_0_iff

text \<open>
  Claim C5, as stated, fails: the check of the writing stage has no test for \<open>okay\<close> or
  \<open>awaiting\<close>, and both examples of the claim pass it.
\<close>

theorem filler_prefix_counterexample:
  "startswith (lower (strip ''Okay, I will draft this now.'')) ''okay''
   \<and> validate Writer ''Okay, I will draft this now.'' = Accepted
   \<and> startswith (lower (strip ''OKAY sure'')) ''okay''
   \<and> validate Writer ''OKAY sure'' = Accepted"
  by (simp add: writing_invalid_def string_eval)

text \<open>
  Claim C5, amended. At the research stage a text whose trimmed, lower-cased form begins
  with \<open>okay\<close> or \<open>awaiting\<close> is rejected; at every stage a text whose trimmed,
  lower-cased form begins with \<open>i will now proceed\<close> is rejected. The writing and the
  editing stage apply no test for \<open>okay\<close> or \<open>awaiting\<close>: the writing stage accepts
  exactly the texts that are not empty, do not hold the draft placeholder and begin,
  trimmed and lower-cased, with neither \<open>i cannot create\<close> nor \<open>i will now proceed\<close>;
  the editing stage accepts exactly the texts that are not empty, do not hold the
  final-post placeholder and do not begin with \<open>i will now proceed\<close>. The two examples
  of the claim, and a text beginning with \<open>Awaiting\<close>, are accepted at the writing
  stage.
\<close>

theorem filler_prefix_amended:
  "(startswith (lower (strip t)) ''okay'' \<or> startswith (lower (strip t)) ''awaiting''
      \<longrightarrow> validate Researcher t = Rejected)
   \<and> (startswith (lower (strip t)) ''i will now proceed'' \<longrightarrow> validate r t = Rejected)
   \<and> validate Writer ''Okay, I will draft this now.'' = Accepted
   \<and> validate Writer ''OKAY sure'' = Accepted
   \<and> (validate Writer t = Accepted \<longleftrightarrow>
        t \<noteq> []
        \<and> \<not> contains ''No blog post draft generated.'' t
        \<and> \<not> startswith (lower (strip t)) ''i cannot create''
        \<and> \<not> startswith (lower (strip t)) ''i will now proceed'')
   \<and> (validate Editor t = Accepted \<longleftrightarrow>
        t \<noteq> []
        \<and> \<not> contains ''No final blog post generated.'' t
        \<and> \<not> startswith (lower (strip t)) ''i will now proceed'')
   \<and> validate Writer ''Awaiting your topic.'' = Accepted
   \<and> validate Editor ''Okay, here is the post.'' = Accepted
   \<and> validate Editor ''Awaiting your draft.'' = Accepted"
proof (intro conjI impI)
  assume "startswith (lower (strip t)) ''okay'' \<or> startswith (lower (strip t)) ''awaiting''"
  then show "validate Researcher t = Rejected" by (auto simp: research_invalid_def)
next
  assume "startswith (lower (strip t)) ''i will now proceed''"
  then show "validate r t = Rejected"
    by (cases r) (simp_all add: research_invalid_def writing_invalid_def final_valid_def)
next
  show "validate Writer ''Okay, I will draft this now.'' = Accepted"
    by (simp add: writing_invalid_def string_eval)
  show "validate Writer ''OKAY sure'' = Accepted"
    by (simp add: writing_invalid_def string_eval)
  show "validate Writer t = Accepted \<longleftrightarrow>
        t \<noteq> []
        \<and> \<not> contains ''No blog post draft generated.'' t
        \<and> \<not> startswith (lower (strip t)) ''i cannot create''
        \<and> \<not> startswith (lower (strip t)) ''i will now proceed''"
    by (simp add: writing_invalid_def)
  show "validate Editor t = Accepted \<longleftrightarrow>
        t \<noteq> []
        \<and> \<not> contains ''No final blog post generated.'' t
        \<and> \<not> startswith (lower (strip t)) ''i will now proceed''"
    by (simp add: final_valid_def)
  show "validate Writer ''Awaiting your topic.'' = Accepted"
    by (simp add: writing_invalid_def string_eval)
  show "validate Editor ''Okay, here is the post.'' = Accepted"
    by (simp add: final_valid_def string_eval)
  show "validate Editor ''Awaiting your draft.'' = Accepted"
    by (simp add: final_valid_def string_eval)
qed

theorem filler_prefix_amended_witness:
  "validate Researcher ''  OKAY sure'' = Rejected
   \<and> validate Researcher ''Awaiting your topic.'' = Rejected
   \<and> validate Editor ''I will now proceed to edit.'' = Rejected
   \<and> validate Writer ''I Will Now Proceed'' = Rejected"
  using filler_prefix_amended [of "''  OKAY sure''" Editor]
    filler_prefix_amended [of "''Awaiting your topic.''" Editor]
    filler_prefix_amended [of "''I will now proceed to edit.''" Editor]
    filler_prefix_amended [of "''I Will Now Proceed''" Writer]
  by (simp add: string_eval)

text \<open>
  Claim C6, as stated, fails: a text that holds the research placeholder as a proper
  substring, is not empty, equals no placeholder and matches no prefix or phrase test is
  rejected at the research stage, since the check tests containment.
\<close>

theorem placeholder_substring_counterexample:
  "validate Researcher ''Note: No research content generated. Try again.'' = Rejected
   \<and> ''Note: No research content generated. Try again.'' \<noteq> []
   \<and> ''Note: No research content generated. Try again.'' \<noteq> ''No research content generated.''
   \<and> ''Note: No research content generated. Try again.'' \<noteq> ''No blog post draft generated.''
   \<and> ''Note: No research content generated. Try again.'' \<noteq> ''No final blog post generated.''
   \<and> \<not> startswith (lower (strip ''Note: No research content generated. Try again.'')) ''okay''
   \<and> \<not> startswith (lower (strip ''Note: No research content generated. Try again.'')) ''awaiting''
   \<and> \<not> startswith (lower (strip ''Note: No research content generated. Try again.'')) ''i will now proceed''
   \<and> \<not> startswith (lower (strip ''Note: No research content generated. Try again.'')) ''i cannot create''
   \<and> \<not> contains ''fact-checking process'' (lower ''Note: No research content generated. Try again.'')
   \<and> \<not> contains ''visual integration'' (lower ''Note: No research content generated. Try again.'')"
  by (simp add: research_invalid_def string_eval)

text \<open>
  Claim C6, amended. The validator rejects a text exactly when it is empty, or holds the
  placeholder of its own stage anywhere inside it, or matches one of the prefix or phrase
  tests of its stage; every other text is accepted. A text that holds the stage's
  placeholder as a substring is rejected.
\<close>

theorem validator_characterisation:
  "(validate r t = Rejected \<longleftrightarrow>
      t = []
      \<or> (\<exists>a b. t = a @ placeholder r @ b)
      \<or> startswith (lower (strip t)) ''i will now proceed''
      \<or> (r = Researcher \<and>
           (startswith (lower (strip t)) ''okay''
            \<or> startswith (lower (strip t)) ''awaiting''
            \<or> contains ''fact-checking process'' (lower t)
            \<or> contains ''visual integration'' (lower t)))
      \<or> (r = Writer \<and> startswith (lower (strip t)) ''i cannot create''))
   \<and> (validate r t = Accepted \<longleftrightarrow> validate r t \<noteq> Rejected)
   \<and> validate r (a0 @ placeholder r @ b0) = Rejected"
proof (intro conjI)
  show "validate r t = Rejected \<longleftrightarrow>
      t = []
      \<or> (\<exists>a b. t = a @ placeholder r @ b)
      \<or> startswith (lower (strip t)) ''i will now proceed''
      \<or> (r = Researcher \<and>
           (startswith (lower (strip t)) ''okay''
            \<or> startswith (lower (strip t)) ''awaiting''
            \<or> contains ''fact-checking process'' (lower t)
            \<or> contains ''visual integration'' (lower t)))
      \<or> (r = Writer \<and> startswith (lower (strip t)) ''i cannot create'')"
  proof (cases r)
    case Researcher
    then show ?thesis
      unfolding contains_iff [symmetric] by (auto simp: research_invalid_def)
  next
    case Writer
    then show ?thesis
      unfolding contains_iff [symmetric] by (auto simp: writing_invalid_def)
  next
    case Editor
    then show ?thesis
      unfolding contains_iff [symmetric] by (auto simp: final_valid_def)
  qed
  show "validate r t = Accepted \<longleftrightarrow> validate r t \<noteq> Rejected"
    by (cases "validate r t") simp_all
  have "contains (placeholder r) (a0 @ placeholder r @ b0)"
    unfolding contains_iff by blast
  then show "validate r (a0 @ placeholder r @ b0) = Rejected"
    by (cases r) (simp_all add: research_invalid_def writing_invalid_def final_valid_def)
qed

theorem validator_characterisation_witness:
  "validate Researcher ''Note: No research content generated. Try again.'' = Rejected
   \<and> validate Researcher (''## Key Points'' @ [nl] @ ''- Fact A'') = Accepted
   \<and> validate Writer ''No research content generated.'' = Accepted"
  using validator_characterisation [of Researcher "''## Key Points'' @ [nl] @ ''- Fact A''" "''Note: ''" "'' Try again.''"]
    validator_characterisation [of Writer "''No research content generated.''" "[]" "[]"]
  by (simp add: research_invalid_def writing_invalid_def string_eval)

section \<open>Facts about the page script\<close>

lemmas run_defs = app_def step1_researcher_def step2_writer_def step3_editor_def
  display_def page_def research_call_def writing_call_def editing_call_def content_of_def

lemma app_research_rejected:
  assumes "blog_name \<noteq> []"
    and "svc (research_call getenv blog_name) = Returned r"
    and "research_invalid (content_of Researcher r)"
  shows "app getenv svc blog_name True =
           \<lparr>ui = ui page @ [Spinner ''Generating blog post...'',
                  ErrorMsg ''Research failed or returned invalid content. Cannot proceed with writing.''],
            calls = [research_call getenv blog_name], uncaught = None\<rparr>"
  using assms by (simp add: run_defs)

lemma app_writing_rejected:
  assumes "blog_name \<noteq> []"
    and "svc (research_call getenv blog_name) = Returned r"
    and "\<not> research_invalid (content_of Researcher r)"
    and "svc (writing_call getenv (content_of Researcher r)) = Returned w"
    and "writing_invalid (content_of Writer w)"
  shows "app getenv svc blog_name True =
           \<lparr>ui = ui page @ [Spinner ''Generating blog post...'',
                  Info ''Writer is drafting the blog post...'',
                  ErrorMsg ''Writing failed or returned no content. Cannot proceed with editing.''],
            calls = [research_call getenv blog_name, writing_call getenv (content_of Researcher r)],
            uncaught = None\<rparr>"
  using assms by (simp add: run_defs)

lemma app_editing:
  assumes "blog_name \<noteq> []"
    and "svc (research_call getenv blog_name) = Returned r"
    and "\<not> research_invalid (content_of Researcher r)"
    and "svc (writing_call getenv (content_of Researcher r)) = Returned w"
    and "\<not> writing_invalid (content_of Writer w)"
    and "svc (editing_call getenv (content_of Writer w)) = Returned e"
  shows "app getenv svc blog_name True =
           \<lparr>ui = ui page @ [Spinner ''Generating blog post...'',
                  Info ''Writer is drafting the blog post...'',
                  Info ''Editor is reviewing and improving the blog post...'',
                  Subheader ''Final Blog Post:'',
                  Write (content_of Editor e),
                  if final_valid (content_of Editor e)
                  then Success ''Blog post generation complete!''
                  else ErrorMsg ''Editing failed or returned no content.''],
            calls = [research_call getenv blog_name, writing_call getenv (content_of Researcher r),
                     editing_call getenv (content_of Writer w)],
            uncaught = None\<rparr>"
  using assms by (simp add: run_defs)

lemma no_content_summary_or: "no_content r \<Longrightarrow> summary_or r p = p"
  by (auto simp: no_content_def summary_or_def split: option.splits)

lemma clean_placeholder: "clean_agent_output (placeholder r) = placeholder r"
  by (cases r) (simp_all add: clean_agent_output_def sub_leading_def banner_line_def string_eval)

lemma no_content_placeholder: "no_content res \<Longrightarrow> content_of r res = placeholder r"
  by (simp add: content_of_def no_content_summary_or clean_placeholder)

lemma placeholder_rejected: "validate r (placeholder r) = Rejected"
proof -
  have "contains (placeholder r) (placeholder r)"
    unfolding contains_iff by (metis append_Nil append_Nil2)
  then show ?thesis
    by (cases r) (simp_all add: research_invalid_def writing_invalid_def final_valid_def)
qed

lemma calls_shape:
  "c \<in> set (calls (app getenv svc blog_name clicked)) \<Longrightarrow>
     c = research_call getenv blog_name \<or> (\<exists>t. c = writing_call getenv t) \<or> (\<exists>t. c = editing_call getenv t)"
  by (auto simp: run_defs Let_def split: reply.splits if_splits)


lemma stub_calls:
  "stub r w e (research_call getenv blog_name) = Returned r"
  "stub r w e (writing_call getenv x) = Returned w"
  "stub r w e (editing_call getenv y) = Returned e"
  by (simp_all add: stub_def research_call_def writing_call_def editing_call_def initiate_chat_def
      researcher_agent_def writer_agent_def editor_agent_def)

lemma call_recipients:
  "agent_name (recipient (research_call getenv blog_name)) = ''Researcher''"
  "agent_name (recipient (writing_call getenv x)) = ''Writer''"
  "agent_name (recipient (editing_call getenv y)) = ''Editor''"
  by (simp_all add: research_call_def writing_call_def editing_call_def initiate_chat_def
      researcher_agent_def writer_agent_def editor_agent_def)

lemma content_of_plain:
  "\<not> contains banner s \<Longrightarrow> s \<noteq> [] \<Longrightarrow> content_of r (said s) = strip s"
  by (simp add: content_of_def said_def summary_or_def clean_no_banner)

lemma sample_contents:
  "content_of Researcher (said ''Okay, here is what I found.'') = ''Okay, here is what I found.''"
  "content_of Researcher (said ''Key facts'') = ''Key facts''"
  "content_of Writer (said ''I cannot create this content.'') = ''I cannot create this content.''"
  "content_of Writer (said ''A draft'') = ''A draft''"
  "content_of Editor (said ''I will now proceed to edit the post.'') = ''I will now proceed to edit the post.''"
  "content_of Editor (said ''A polished post'') = ''A polished post''"
  by (simp_all add: content_of_plain string_eval)

lemma sample_verdicts:
  "research_invalid ''Okay, here is what I found.''"
  "\<not> research_invalid ''Key facts''"
  "writing_invalid ''I cannot create this content.''"
  "\<not> writing_invalid ''A draft''"
  "\<not> final_valid ''I will now proceed to edit the post.''"
  "final_valid ''A polished post''"
  by (simp_all add: research_invalid_def writing_invalid_def final_valid_def string_eval)

section \<open>The page script: short circuit\<close>

text \<open>
  Claim C1. When the research check rejects the research content, the run ends with the
  error message of the research stage, and the only call made is the one to the
  researcher: no call to the writer and none to the editor. When the research content
  passes and the writing check rejects the draft, the run ends with the error message of
  the writing stage after the calls to the researcher and the writer: no call to the
  editor.
\<close>

theorem pipeline_short_circuit:
  "(blog_name \<noteq> []
      \<and> svc (research_call getenv blog_name) = Returned r
      \<and> validate Researcher (content_of Researcher r) = Rejected
    \<longrightarrow> ui (app getenv svc blog_name True)
          = ui page @ [Spinner ''Generating blog post...'',
               ErrorMsg ''Research failed or returned invalid content. Cannot proceed with writing.'']
        \<and> calls (app getenv svc blog_name True) = [research_call getenv blog_name]
        \<and> map (agent_name \<circ> recipient) (calls (app getenv svc blog_name True)) = [''Researcher'']
        \<and> uncaught (app getenv svc blog_name True) = None)
   \<and> (blog_name \<noteq> []
      \<and> svc (research_call getenv blog_name) = Returned r
      \<and> validate Researcher (content_of Researcher r) = Accepted
      \<and> svc (writing_call getenv (content_of Researcher r)) = Returned w
      \<and> validate Writer (content_of Writer w) = Rejected
    \<longrightarrow> ui (app getenv svc blog_name True)
          = ui page @ [Spinner ''Generating blog post...'',
               Info ''Writer is drafting the blog post...'',
               ErrorMsg ''Writing failed or returned no content. Cannot proceed with editing.'']
        \<and> calls (app getenv svc blog_name True)
          = [research_call getenv blog_name, writing_call getenv (content_of Researcher r)]
        \<and> map (agent_name \<circ> recipient) (calls (app getenv svc blog_name True))
          = [''Researcher'', ''Writer'']
        \<and> uncaught (app getenv svc blog_name True) = None)"
proof (intro conjI impI)
  assume h: "blog_name \<noteq> []
      \<and> svc (research_call getenv blog_name) = Returned r
      \<and> validate Researcher (content_of Researcher r) = Rejected"
  then have "research_invalid (content_of Researcher r)" by (simp split: if_splits)
  with h have a: "app getenv svc blog_name True =
           \<lparr>ui = ui page @ [Spinner ''Generating blog post...'',
                  ErrorMsg ''Research failed or returned invalid content. Cannot proceed with writing.''],
            calls = [research_call getenv blog_name], uncaught = None\<rparr>"
    using app_research_rejected by blast
  show "ui (app getenv svc blog_name True)
          = ui page @ [Spinner ''Generating blog post...'',
               ErrorMsg ''Research failed or returned invalid content. Cannot proceed with writing.'']"
    by (simp add: a)
  show "calls (app getenv svc blog_name True) = [research_call getenv blog_name]"
    by (simp add: a)
  show "map (agent_name \<circ> recipient) (calls (app getenv svc blog_name True)) = [''Researcher'']"
    by (simp add: a call_recipients)
  show "uncaught (app getenv svc blog_name True) = None"
    by (simp add: a)
next
  assume h: "blog_name \<noteq> []
      \<and> svc (research_call getenv blog_name) = Returned r
      \<and> validate Researcher (content_of Researcher r) = Accepted
      \<and> svc (writing_call getenv (content_of Researcher r)) = Returned w
      \<and> validate Writer (content_of Writer w) = Rejected"
  then have "\<not> research_invalid (content_of Researcher r)"
    and "writing_invalid (content_of Writer w)" by (simp_all split: if_splits)
  with h have a: "app getenv svc blog_name True =
           \<lparr>ui = ui page @ [Spinner ''Generating blog post...'',
                  Info ''Writer is drafting the blog post...'',
                  ErrorMsg ''Writing failed or returned no content. Cannot proceed with editing.''],
            calls = [research_call getenv blog_name, writing_call getenv (content_of Researcher r)],
            uncaught = None\<rparr>"
    using app_writing_rejected by blast
  show "ui (app getenv svc blog_name True)
          = ui page @ [Spinner ''Generating blog post...'',
               Info ''Writer is drafting the blog post...'',
               ErrorMsg ''Writing failed or returned no content. Cannot proceed with editing.'']"
    by (simp add: a)
  show "calls (app getenv svc blog_name True)
          = [research_call getenv blog_name, writing_call getenv (content_of Researcher r)]"
    by (simp add: a)
  show "map (agent_name \<circ> recipient) (calls (app getenv svc blog_name True))
          = [''Researcher'', ''Writer'']"
    by (simp add: a call_recipients)
  show "uncaught (app getenv svc blog_name True) = None"
    by (simp add: a)
qed

theorem pipeline_short_circuit_witness:
  "map (agent_name \<circ> recipient)
     (calls (app Map.empty
        (stub (said ''Okay, here is what I found.'') (said ''A draft'') (said ''A polished post''))
        ''AI'' True)) = [''Researcher'']
   \<and> map (agent_name \<circ> recipient)
     (calls (app Map.empty
        (stub (said ''Key facts'') (said ''I cannot create this content.'') (said ''A polished post''))
        ''AI'' True)) = [''Researcher'', ''Writer'']"
  using pipeline_short_circuit [of "''AI''"
      "stub (said ''Okay, here is what I found.'') (said ''A draft'') (said ''A polished post'')"
      Map.empty "said ''Okay, here is what I found.''" "said ''A draft''"]
    pipeline_short_circuit [of "''AI''"
      "stub (said ''Key facts'') (said ''I cannot create this content.'') (said ''A polished post'')"
      Map.empty "said ''Key facts''" "said ''I cannot create this content.''"]
  by (simp add: stub_calls sample_contents sample_verdicts call_recipients)

section \<open>The page script: what the user sees\<close>

lemma no_content_samples:
  "no_content None" "no_content (Some \<lparr>summary = None\<rparr>)" "no_content (said [])"
  by (simp_all add: no_content_def said_def)

lemma empty_contents:
  "content_of s None = placeholder s"
  "content_of s (Some \<lparr>summary = None\<rparr>) = placeholder s"
  "content_of s (said []) = placeholder s"
  by (simp_all add: no_content_placeholder no_content_samples)

lemma placeholder_checks:
  "research_invalid ''No research content generated.''"
  "writing_invalid ''No blog post draft generated.''"
  "\<not> final_valid ''No final blog post generated.''"
  using placeholder_rejected [of Researcher] placeholder_rejected [of Writer]
    placeholder_rejected [of Editor]
  by (simp_all split: if_splits)


lemma call_config:
  "agent_llm_config (recipient (research_call getenv blog_name)) = llm_config getenv"
  "agent_llm_config (recipient (writing_call getenv x)) = llm_config getenv"
  "agent_llm_config (recipient (editing_call getenv y)) = llm_config getenv"
  by (simp_all add: research_call_def writing_call_def editing_call_def initiate_chat_def
      researcher_agent_def writer_agent_def editor_agent_def)

lemma app_all_accepted:
  "app Map.empty (stub (said ''Key facts'') (said ''A draft'') (said ''A polished post'')) ''AI'' True =
           \<lparr>ui = ui page @ [Spinner ''Generating blog post...'',
                  Info ''Writer is drafting the blog post...'',
                  Info ''Editor is reviewing and improving the blog post...'',
                  Subheader ''Final Blog Post:'',
                  Write ''A polished post'',
                  Success ''Blog post generation complete!''],
            calls = [research_call Map.empty ''AI'', writing_call Map.empty ''Key facts'',
                     editing_call Map.empty ''A draft''],
            uncaught = None\<rparr>"
  using app_editing [of "''AI''"
      "stub (said ''Key facts'') (said ''A draft'') (said ''A polished post'')"
      Map.empty "said ''Key facts''" "said ''A draft''" "said ''A polished post''"]
  by (simp add: stub_calls sample_contents sample_verdicts)

text \<open>
  Claim C2 says that output failing validation is never displayed as final content, at
  the editing stage too. The script writes the editor's cleaned output under the heading
  \<open>Final Blog Post:\<close> before it tests it: in the run below the editor answers with
  commentary that the editing check rejects, and the page shows that commentary as the
  final blog post, followed by the error message of the editing stage.
\<close>

theorem editing_output_shown_before_check:
  "validate Editor (content_of Editor (said ''I will now proceed to edit the post.'')) = Rejected
   \<and> ui (app Map.empty
          (stub (said ''Key facts'') (said ''A draft'') (said ''I will now proceed to edit the post.''))
          ''AI'' True)
     = [Title ''BlogBot'', TextInput ''Enter a topic name for the blog post:'',
        Button ''Generate Blog Post'', Spinner ''Generating blog post...'',
        Info ''Writer is drafting the blog post...'',
        Info ''Editor is reviewing and improving the blog post...'',
        Subheader ''Final Blog Post:'',
        Write ''I will now proceed to edit the post.'',
        ErrorMsg ''Editing failed or returned no content.'']"
  using app_editing [of "''AI''"
      "stub (said ''Key facts'') (said ''A draft'') (said ''I will now proceed to edit the post.'')"
      Map.empty "said ''Key facts''" "said ''A draft''" "said ''I will now proceed to edit the post.''"]
  by (simp add: stub_calls sample_contents sample_verdicts page_def)

text \<open>
  Claim C7. A stage whose call returns no content (no result, no summary or an empty
  summary) works on the placeholder of its role, and the check of the role rejects the
  placeholder. So the run ends at that stage with its error message: after a research
  call without content no further call is made, after a writing call without content
  the editor is not called, and after an editing call without content the run ends with
  the editing error and without the success message.
\<close>

theorem empty_completion_fails_stage:
  "(no_content res \<longrightarrow>
      content_of s res = placeholder s \<and> validate s (content_of s res) = Rejected)
   \<and> (blog_name \<noteq> []
      \<and> svc (research_call getenv blog_name) = Returned r
      \<and> no_content r
    \<longrightarrow> app getenv svc blog_name True =
          \<lparr>ui = ui page @ [Spinner ''Generating blog post...'',
                 ErrorMsg ''Research failed or returned invalid content. Cannot proceed with writing.''],
           calls = [research_call getenv blog_name], uncaught = None\<rparr>)
   \<and> (blog_name \<noteq> []
      \<and> svc (research_call getenv blog_name) = Returned r
      \<and> validate Researcher (content_of Researcher r) = Accepted
      \<and> svc (writing_call getenv (content_of Researcher r)) = Returned w
      \<and> no_content w
    \<longrightarrow> app getenv svc blog_name True =
          \<lparr>ui = ui page @ [Spinner ''Generating blog post...'',
                 Info ''Writer is drafting the blog post...'',
                 ErrorMsg ''Writing failed or returned no content. Cannot proceed with editing.''],
           calls = [research_call getenv blog_name, writing_call getenv (content_of Researcher r)],
           uncaught = None\<rparr>)
   \<and> (blog_name \<noteq> []
      \<and> svc (research_call getenv blog_name) = Returned r
      \<and> validate Researcher (content_of Researcher r) = Accepted
      \<and> svc (writing_call getenv (content_of Researcher r)) = Returned w
      \<and> validate Writer (content_of Writer w) = Accepted
      \<and> svc (editing_call getenv (content_of Writer w)) = Returned e
      \<and> no_content e
    \<longrightarrow> last (ui (app getenv svc blog_name True))
          = ErrorMsg ''Editing failed or returned no content.''
        \<and> Success ''Blog post generation complete!'' \<notin> set (ui (app getenv svc blog_name True))
        \<and> calls (app getenv svc blog_name True)
          = [research_call getenv blog_name, writing_call getenv (content_of Researcher r),
             editing_call getenv (content_of Writer w)]
        \<and> uncaught (app getenv svc blog_name True) = None)"
proof (intro conjI impI)
  assume "no_content res"
  then show "content_of s res = placeholder s" by (rule no_content_placeholder)
  then show "validate s (content_of s res) = Rejected" by (simp add: placeholder_rejected)
next
  assume h: "blog_name \<noteq> []
      \<and> svc (research_call getenv blog_name) = Returned r
      \<and> no_content r"
  then have "validate Researcher (content_of Researcher r) = Rejected"
    by (simp add: no_content_placeholder placeholder_rejected del: validate.simps placeholder.simps)
  then have "research_invalid (content_of Researcher r)" by (simp split: if_splits)
  with h show "app getenv svc blog_name True =
          \<lparr>ui = ui page @ [Spinner ''Generating blog post...'',
                 ErrorMsg ''Research failed or returned invalid content. Cannot proceed with writing.''],
           calls = [research_call getenv blog_name], uncaught = None\<rparr>"
    using app_research_rejected by blast
next
  assume h: "blog_name \<noteq> []
      \<and> svc (research_call getenv blog_name) = Returned r
      \<and> validate Researcher (content_of Researcher r) = Accepted
      \<and> svc (writing_call getenv (content_of Researcher r)) = Returned w
      \<and> no_content w"
  then have "validate Writer (content_of Writer w) = Rejected"
    by (simp add: no_content_placeholder placeholder_rejected del: validate.simps placeholder.simps)
  then have "writing_invalid (content_of Writer w)" by (simp split: if_splits)
  moreover from h have "\<not> research_invalid (content_of Researcher r)" by (simp split: if_splits)
  ultimately show "app getenv svc blog_name True =
          \<lparr>ui = ui page @ [Spinner ''Generating blog post...'',
                 Info ''Writer is drafting the blog post...'',
                 ErrorMsg ''Writing failed or returned no content. Cannot proceed with editing.''],
           calls = [research_call getenv blog_name, writing_call getenv (content_of Researcher r)],
           uncaught = None\<rparr>"
    using h app_writing_rejected by blast
next
  assume h: "blog_name \<noteq> []
      \<and> svc (research_call getenv blog_name) = Returned r
      \<and> validate Researcher (content_of Researcher r) = Accepted
      \<and> svc (writing_call getenv (content_of Researcher r)) = Returned w
      \<and> validate Writer (content_of Writer w) = Accepted
      \<and> svc (editing_call getenv (content_of Writer w)) = Returned e
      \<and> no_content e"
  then have "validate Editor (content_of Editor e) = Rejected"
    by (simp add: no_content_placeholder placeholder_rejected del: validate.simps placeholder.simps)
  then have nv: "\<not> final_valid (content_of Editor e)" by (simp split: if_splits)
  from h have "\<not> research_invalid (content_of Researcher r)"
    and "\<not> writing_invalid (content_of Writer w)" by (simp_all split: if_splits)
  with h have a: "app getenv svc blog_name True =
           \<lparr>ui = ui page @ [Spinner ''Generating blog post...'',
                  Info ''Writer is drafting the blog post...'',
                  Info ''Editor is reviewing and improving the blog post...'',
                  Subheader ''Final Blog Post:'',
                  Write (content_of Editor e),
                  if final_valid (content_of Editor e)
                  then Success ''Blog post generation complete!''
                  else ErrorMsg ''Editing failed or returned no content.''],
            calls = [research_call getenv blog_name, writing_call getenv (content_of Researcher r),
                     editing_call getenv (content_of Writer w)],
            uncaught = None\<rparr>"
    using app_editing by blast
  show "last (ui (app getenv svc blog_name True)) = ErrorMsg ''Editing failed or returned no content.''"
    by (simp add: a nv)
  show "Success ''Blog post generation complete!'' \<notin> set (ui (app getenv svc blog_name True))"
    by (simp add: a nv page_def)
  show "calls (app getenv svc blog_name True)
          = [research_call getenv blog_name, writing_call getenv (content_of Researcher r),
             editing_call getenv (content_of Writer w)]"
    by (simp add: a)
  show "uncaught (app getenv svc blog_name True) = None"
    by (simp add: a)
qed

theorem empty_completion_fails_stage_witness:
  "content_of Researcher None = ''No research content generated.''
   \<and> validate Writer (content_of Writer (said [])) = Rejected
   \<and> calls (app Map.empty (stub None (said ''A draft'') (said ''A polished post'')) ''AI'' True)
       = [research_call Map.empty ''AI'']
   \<and> calls (app Map.empty (stub (said ''Key facts'') (Some \<lparr>summary = None\<rparr>) (said ''A polished post'')) ''AI'' True)
       = [research_call Map.empty ''AI'', writing_call Map.empty ''Key facts'']
   \<and> last (ui (app Map.empty (stub (said ''Key facts'') (said ''A draft'') (said [])) ''AI'' True))
       = ErrorMsg ''Editing failed or returned no content.''"
  using empty_completion_fails_stage [of None Researcher "''AI''"
      "stub None (said ''A draft'') (said ''A polished post'')" Map.empty None "said ''A draft''" None]
    empty_completion_fails_stage [of "said []" Writer "''AI''"
      "stub (said ''Key facts'') (Some \<lparr>summary = None\<rparr>) (said ''A polished post'')" Map.empty
      "said ''Key facts''" "Some \<lparr>summary = None\<rparr>" None]
    empty_completion_fails_stage [of None Editor "''AI''"
      "stub (said ''Key facts'') (said ''A draft'') (said [])" Map.empty
      "said ''Key facts''" "said ''A draft''" "said []"]
  by (simp add: stub_calls sample_contents sample_verdicts no_content_samples empty_contents
      placeholder_checks)

section \<open>The page script: how the calls are issued\<close>






text \<open>
  Claim C9. Every call of a run addresses an agent configured with the one \<open>llm_config\<close>,
  whose temperature is 0.7 and whose seed is 42; the three agents share that
  configuration, and neither value depends on the environment, the topic or the
  service's answers.
\<close>

theorem sampling_configuration:
  "(\<forall>c \<in> set (calls (app getenv svc blog_name clicked)).
      agent_llm_config (recipient c) = llm_config getenv
      \<and> temperature (agent_llm_config (recipient c)) = 0.7
      \<and> seed (agent_llm_config (recipient c)) = 42)
   \<and> agent_llm_config (researcher_agent getenv) = llm_config getenv
   \<and> agent_llm_config (writer_agent getenv) = llm_config getenv
   \<and> agent_llm_config (editor_agent getenv) = llm_config getenv
   \<and> temperature (llm_config getenv) = 0.7
   \<and> seed (llm_config getenv) = 42"
proof (intro conjI)
  show "\<forall>c \<in> set (calls (app getenv svc blog_name clicked)).
      agent_llm_config (recipient c) = llm_config getenv
      \<and> temperature (agent_llm_config (recipient c)) = 0.7
      \<and> seed (agent_llm_config (recipient c)) = 42"
  proof
    fix c assume "c \<in> set (calls (app getenv svc blog_name clicked))"
    then have "c = research_call getenv blog_name \<or> (\<exists>t. c = writing_call getenv t)
        \<or> (\<exists>t. c = editing_call getenv t)" by (rule calls_shape)
    then have "agent_llm_config (recipient c) = llm_config getenv" by (auto simp: call_config)
    then show "agent_llm_config (recipient c) = llm_config getenv
      \<and> temperature (agent_llm_config (recipient c)) = 0.7
      \<and> seed (agent_llm_config (recipient c)) = 42" by (simp add: llm_config_def)
  qed
qed (simp_all add: researcher_agent_def writer_agent_def editor_agent_def llm_config_def)

theorem sampling_configuration_witness:
  "map (\<lambda>c. (seed (agent_llm_config (recipient c)), temperature (agent_llm_config (recipient c))))
     (calls (app Map.empty (stub (said ''Key facts'') (said ''A draft'') (said ''A polished post''))
        ''AI'' True)) = [(42, 7 / 10), (42, 7 / 10), (42, 7 / 10)]"
  using sampling_configuration [of Map.empty
      "stub (said ''Key facts'') (said ''A draft'') (said ''A polished post'')" "''AI''" True]
  by (simp add: app_all_accepted)

text \<open>
  Claim C10. With an empty topic a click on the button makes no call; the page shows the
  warning that asks for a topic name.
\<close>

theorem empty_topic_warning:
  "app getenv svc [] True =
     \<lparr>ui = [Title ''BlogBot'', TextInput ''Enter a topic name for the blog post:'',
            Button ''Generate Blog Post'', WarningMsg ''Please enter a topic name.''],
      calls = [], uncaught = None\<rparr>"
  by (simp add: app_def display_def page_def)

end
